theory Spec2Isabelle
  imports Main "HOL-Library.Word"
begin

section \<open>The emulator core object (js/apple2.ts)\<close>

subsection \<open>Collaborator objects\<close>

type_synonym byte = "8 word"

text \<open>
  Modelled from the spec: js/cpu6502 (\<open>CpuState\<close>, \<open>CPU6502.getState\<close>,
  \<open>CPU6502.setState\<close>) is imported by js/apple2.ts and is not part of the sources at hand.
  The spec gives the CPU state as A, X, Y, SP (bytes), PC (a 16-bit word), the status flags
  (a byte), a cumulative cycle counter (unsigned 64-bit) and the interrupt-pending flags, and
  says that \<open>getState()/setState()\<close> "snapshot/restore register file and cycle counter".
\<close>

record CpuState =
  reg_a :: byte
  reg_x :: byte
  reg_y :: byte
  reg_sp :: byte
  reg_pc :: "16 word"
  reg_flags :: byte
  cycles :: "64 word"

record cpu6502 = CpuState +
  irq_pending :: bool
  nmi_pending :: bool
  reset_pending :: bool

definition CPU6502_getState :: "cpu6502 \<Rightarrow> CpuState" where
  "CPU6502_getState c =
     \<lparr>reg_a = reg_a c, reg_x = reg_x c, reg_y = reg_y c, reg_sp = reg_sp c,
      reg_pc = reg_pc c, reg_flags = reg_flags c, cycles = cycles c\<rparr>"

definition CPU6502_setState :: "CpuState \<Rightarrow> cpu6502 \<Rightarrow> cpu6502" where
  "CPU6502_setState st c =
     c\<lparr>reg_a := reg_a st, reg_x := reg_x st, reg_y := reg_y st, reg_sp := reg_sp st,
       reg_pc := reg_pc st, reg_flags := reg_flags st, cycles := cycles st\<rparr>"

text \<open>
  Modelled from the spec: js/apple2io (\<open>Apple2IO\<close>) is not part of the sources at hand.
  Of its state the run loop reads the clock setting (\<open>getKHz()\<close>, set by \<open>updateKHz(k)\<close>)
  and the annunciator latches (\<open>annunciator(n)\<close>, four output bits at $C058-$C05F).
  Clock values are JavaScript numbers holding integers; they are modelled as \<open>int\<close>.
\<close>

record apple2io =
  kHz :: int
  annunciators :: "bool list"

definition io_getKHz :: "apple2io \<Rightarrow> int" where
  "io_getKHz i = kHz i"

definition io_annunciator :: "apple2io \<Rightarrow> nat \<Rightarrow> bool" where
  "io_annunciator i n = (n < length (annunciators i) \<and> annunciators i ! n)"

text \<open>
  Modelled from the spec: js/mmu (\<open>MMU\<close>) is not part of the sources at hand. The spec has
  its bank state as single-bit latches, "fully recoverable from 16 bits".
\<close>

record mmu_state =
  latches :: "16 word"

text \<open>
  The objects the emulator holds and hands to its collaborators: the CPU, the I/O page
  and, on a IIe (\<open>options.e\<close>), the MMU. \<open>mmu = None\<close> is the field left undefined.
\<close>

record hw =
  cpu :: cpu6502
  io :: apple2io
  mmu :: "mmu_state option"

subsection \<open>The class \<open>Apple2\<close>\<close>

text \<open>\<open>interface State { cpu: CpuState }\<close>\<close>

record State =
  state_cpu :: CpuState

text \<open>
  The fields of \<open>class Apple2\<close>. The scheduling handles are \<open>number | null\<close>; the counters of
  \<open>stats\<close> are JavaScript numbers that only ever count up from 0 and are modelled as \<open>nat\<close>.
  The video objects (\<open>gr\<close>, \<open>gr2\<close>, \<open>hgr\<close>, \<open>hgr2\<close>, \<open>vm\<close>) and the \<open>tick\<close> hook are reached
  only through calls, which are modelled below as calls to collaborators.
\<close>

record apple2 = hw +
  paused :: bool
  DEBUG :: bool
  TRACE :: bool
  MAX_TRACE :: nat
  trace :: "string list"
  runTimer :: "nat option"
  runAnimationFrame :: "nat option"
  multiScreen :: bool
  frames :: nat
  renderedFrames :: nat

definition getState :: "'a apple2_scheme \<Rightarrow> State" where
  "getState s = \<lparr>state_cpu = CPU6502_getState (cpu s)\<rparr>"

definition setState :: "State \<Rightarrow> 'a apple2_scheme \<Rightarrow> 'a apple2_scheme" where
  "setState state s = s\<lparr>cpu := CPU6502_setState (state_cpu state) (cpu s)\<rparr>"

subsection \<open>The host runtime\<close>

text \<open>
  Calls the emulator makes on objects whose code is not at hand are recorded, in order,
  with their arguments (\<open>StepCycles step\<close>, \<open>Annunciator n\<close>) and with what they returned
  (the last argument of \<open>GetKHz\<close>, \<open>Annunciator\<close>, \<open>VmBlit\<close> and \<open>IoBlit\<close>).
\<close>

datatype call =
    GetKHz int
  | StepCycles int
  | StepCyclesDebug int
  | Debug string
  | ResetVB
  | Annunciator nat bool
  | VmBlit bool
  | IoBlit bool
  | IoTick
  | Tick

text \<open>
  The global \<open>requestAnimationFrame\<close> of the host: a function, a binding with a falsy
  value, or no binding at all, in which case evaluating the identifier throws a
  ReferenceError.
\<close>

datatype binding = Callable | Falsy | Undeclared

datatype error = TypeError | ReferenceError

text \<open>
  The emulator runs inside a browser. \<open>world\<close> extends the emulator's fields with the part
  of the host that \<open>run\<close>, \<open>stop\<close> and the tick function touch:
  \<^item> \<open>raf\<close>: the global \<open>requestAnimationFrame\<close>, which the emulator never assigns;
  \<^item> \<open>animationFrames\<close>, \<open>intervals\<close>: the callbacks the host has pending, by handle; the
    value is the closure to call;
  \<^item> \<open>closure_last\<close>: each call of \<open>run()\<close> creates a closure \<open>runFn\<close> over a fresh
    variable \<open>last\<close>; this is the value of \<open>last\<close> of each closure;
  \<^item> \<open>calls\<close>: the record of calls to collaborators.
  Handles are allocated from a counter and are never 0 (the HTML standard has both
  \<open>requestAnimationFrame\<close> and \<open>setInterval\<close> return integers greater than zero).
\<close>

record world = apple2 +
  raf :: binding
  next_handle :: nat
  animationFrames :: "nat \<rightharpoonup> nat"
  intervals :: "nat \<rightharpoonup> nat"
  closure_last :: "nat \<Rightarrow> int"
  next_closure :: nat
  calls :: "call list"

text \<open>
  How a call ends: it returns, or it throws; either way with the state it has reached.
\<close>

datatype outcome = Returned world | Thrown error world

fun world_of :: "outcome \<Rightarrow> world" where
  "world_of (Returned w) = w"
| "world_of (Thrown err w) = w"

definition requestAnimationFrame :: "nat \<Rightarrow> world \<Rightarrow> nat \<times> world" where
  "requestAnimationFrame c w =
     (let n = Suc (next_handle w)
      in (n, w\<lparr>next_handle := n, animationFrames := (animationFrames w)(n \<mapsto> c)\<rparr>))"

definition cancelAnimationFrame :: "nat \<Rightarrow> world \<Rightarrow> world" where
  "cancelAnimationFrame n w = w\<lparr>animationFrames := (animationFrames w)(n := None)\<rparr>"

definition setInterval :: "nat \<Rightarrow> world \<Rightarrow> nat \<times> world" where
  "setInterval c w =
     (let n = Suc (next_handle w)
      in (n, w\<lparr>next_handle := n, intervals := (intervals w)(n \<mapsto> c)\<rparr>))"

definition clearInterval :: "nat \<Rightarrow> world \<Rightarrow> world" where
  "clearInterval n w = w\<lparr>intervals := (intervals w)(n := None)\<rparr>"

text \<open>JavaScript truthiness of a \<open>number | null\<close>: \<open>null\<close> and \<open>0\<close> are falsy.\<close>

definition truthy :: "nat option \<Rightarrow> bool" where
  "truthy v = (case v of None \<Rightarrow> False | Some n \<Rightarrow> n \<noteq> 0)"

text \<open>
  \<open>options.tick\<close> is a closure of the host and can do what the host can: call the
  emulator's own \<open>run()\<close> and \<open>stop()\<close> (\<open>CallRun\<close> with what \<open>Date.now()\<close> returns there),
  and change the CPU, the I/O page and the MMU (\<open>Touch\<close>, which covers \<open>setState\<close> and
  \<open>reset\<close>). What one call of the hook does is a list of such steps.
\<close>

datatype hook_step =
    CallRun int
  | CallStop
  | Touch "hw \<Rightarrow> hw"

text \<open>
  The methods of the collaborators, as parameters. Each may change the objects it can
  reach (\<open>hw\<close>); what it returns to the caller is the first component. A tick is given its
  own \<open>collab\<close>, so results may depend on state that is not modelled (video memory, RAM).
  \<open>cpu_stepCyclesDebug\<close> returns the lines its callback argument is called with, one per
  executed instruction (\<open>dumpRegisters() + ' ' + dumpPC(undefined, SYMBOLS)\<close>).
  The objects of the emulator (CPU, I/O, video, MMU) hold no reference to it and cannot
  call it; the \<open>tick\<close> hook can.
\<close>

record collab =
  cpu_stepCycles :: "int \<Rightarrow> hw \<Rightarrow> hw"
  cpu_stepCyclesDebug :: "int \<Rightarrow> hw \<Rightarrow> string list \<times> hw"
  mmu_resetVB :: "hw \<Rightarrow> hw"
  vm_blit :: "hw \<Rightarrow> bool \<times> hw"
  io_blit :: "hw \<Rightarrow> bool \<times> hw"
  io_tick :: "hw \<Rightarrow> hw"
  tick_hook :: "hook_step list"

definition the_hw :: "world \<Rightarrow> hw" where
  "the_hw w = \<lparr>cpu = cpu w, io = io w, mmu = mmu w\<rparr>"

definition put_hw :: "hw \<Rightarrow> world \<Rightarrow> world" where
  "put_hw r w = w\<lparr>cpu := cpu r, io := io r, mmu := mmu r\<rparr>"

definition call_result :: "('r \<Rightarrow> call) \<Rightarrow> (hw \<Rightarrow> 'r \<times> hw) \<Rightarrow> world \<Rightarrow> 'r \<times> world" where
  "call_result ev f w =
     (case f (the_hw w) of (r, hw') \<Rightarrow> (r, (put_hw hw' w)\<lparr>calls := calls w @ [ev r]\<rparr>))"

text \<open>A call that only reads the modelled state of the I/O object.\<close>

definition call_io :: "('r \<Rightarrow> call) \<Rightarrow> (apple2io \<Rightarrow> 'r) \<Rightarrow> world \<Rightarrow> 'r \<times> world" where
  "call_io ev f w = (let r = f (io w) in (r, w\<lparr>calls := calls w @ [ev r]\<rparr>))"

definition call_do :: "call \<Rightarrow> (hw \<Rightarrow> hw) \<Rightarrow> world \<Rightarrow> world" where
  "call_do ev f w = (put_hw (f (the_hw w)) w)\<lparr>calls := calls w @ [ev]\<rparr>"

subsection \<open>\<open>Apple2.run\<close> and \<open>Apple2.stop\<close>\<close>

definition interval :: int where
  "interval = 30"

text \<open>
  \<open>run()\<close>, with what \<open>Date.now()\<close> returns. The closure \<open>runFn\<close> it creates gets the next
  closure number, and its \<open>last\<close> starts at \<open>Date.now()\<close>. Without a binding for
  \<open>requestAnimationFrame\<close> the test of it throws, after the closure was made and before
  anything is scheduled.
\<close>

definition run :: "int \<Rightarrow> world \<Rightarrow> outcome" where
  "run date_now w =
     (if truthy (runTimer w) \<or> truthy (runAnimationFrame w) then Returned w
      else
        (let c = next_closure w;
             w = w\<lparr>next_closure := Suc c, closure_last := (closure_last w)(c := date_now)\<rparr>
         in case raf w of
              Undeclared \<Rightarrow> Thrown ReferenceError w
            | Callable \<Rightarrow>
                (let (n, w) = requestAnimationFrame c w
                 in Returned (w\<lparr>runAnimationFrame := Some n\<rparr>))
            | Falsy \<Rightarrow>
                (let (n, w) = setInterval c w in Returned (w\<lparr>runTimer := Some n\<rparr>))))"

definition stop :: "world \<Rightarrow> world" where
  "stop w =
     (let w = (case runTimer w of
                 Some n \<Rightarrow> if n \<noteq> 0 then clearInterval n w else w
               | None \<Rightarrow> w);
          w = (case runAnimationFrame w of
                 Some n \<Rightarrow> if n \<noteq> 0 then cancelAnimationFrame n w else w
               | None \<Rightarrow> w)
      in w\<lparr>runTimer := None, runAnimationFrame := None\<rparr>)"

text \<open>One call of the \<open>tick\<close> hook: its steps in order, up to the first that throws.\<close>

fun hook_call :: "hook_step \<Rightarrow> world \<Rightarrow> outcome" where
  "hook_call (CallRun date_now) w = run date_now w"
| "hook_call CallStop w = Returned (stop w)"
| "hook_call (Touch f) w = Returned (put_hw (f (the_hw w)) w)"

fun hook :: "hook_step list \<Rightarrow> world \<Rightarrow> outcome" where
  "hook [] w = Returned w"
| "hook (s # ss) w =
     (case hook_call s w of
        Thrown err w' \<Rightarrow> Thrown err w'
      | Returned w' \<Rightarrow> hook ss w')"

text \<open>The callback handed to \<open>stepCyclesDebug\<close>, applied to one line.\<close>

definition trace_callback :: "string \<Rightarrow> world \<Rightarrow> world" where
  "trace_callback line w =
     (if TRACE w then w\<lparr>calls := calls w @ [Debug line]\<rparr>
      else (let w = w\<lparr>trace := trace w @ [line]\<rparr>
            in if length (trace w) > MAX_TRACE w then w\<lparr>trace := tl (trace w)\<rparr> else w))"

text \<open>
  The body of the closure \<open>runFn\<close> with closure number \<open>c\<close>; \<open>date_now\<close> is what
  \<open>Date.now()\<close> returns in this tick (integer milliseconds). It is given in three parts,
  in the order of the source: the cycle budget and the CPU (up to \<open>mmu.resetVB()\<close>), the
  rendering (the \<open>if\<close> on annunciator 0), and the rest (the frame counter, the two tick
  hooks, rescheduling). An error thrown by the hook, or by the test of
  \<open>requestAnimationFrame\<close>, ends the tick where it is thrown.
\<close>

definition runFn_cpu :: "collab \<Rightarrow> int \<Rightarrow> nat \<Rightarrow> world \<Rightarrow> world" where
  "runFn_cpu env date_now c w =
     (let (kHz, w) = call_io GetKHz io_getKHz w;
          now = date_now;
          step = (now - closure_last w c) * kHz;
          stepMax = kHz * interval;
          w = w\<lparr>closure_last := (closure_last w)(c := now)\<rparr>;
          step = (if step > stepMax then stepMax else step);
          w = (if DEBUG w then
                 (let budget = (if TRACE w then 1 else step);
                      (lines, w) = call_result (\<lambda>_. StepCyclesDebug budget)
                                     (cpu_stepCyclesDebug env budget) w
                  in fold trace_callback lines w)
               else call_do (StepCycles step) (cpu_stepCycles env step) w)
      in if mmu w \<noteq> None then call_do ResetVB (mmu_resetVB env) w else w)"

definition runFn_render :: "collab \<Rightarrow> world \<Rightarrow> world" where
  "runFn_render env w =
     (let (annunciator0, w) = call_io (Annunciator 0) (\<lambda>i. io_annunciator i 0) w
      in if annunciator0 then
           (let w = (if multiScreen w then snd (call_result VmBlit (vm_blit env) w) else w);
                (changed, w) = call_result IoBlit (io_blit env) w
            in if changed then w\<lparr>renderedFrames := renderedFrames w + 1\<rparr> else w)
         else
           (let (changed, w) = call_result VmBlit (vm_blit env) w
            in if changed then w\<lparr>renderedFrames := renderedFrames w + 1\<rparr> else w))"

definition runFn_rest :: "collab \<Rightarrow> nat \<Rightarrow> world \<Rightarrow> outcome" where
  "runFn_rest env c w =
     (let w = w\<lparr>frames := frames w + 1\<rparr>;
          w = call_do IoTick (io_tick env) w;
          w = w\<lparr>calls := calls w @ [Tick]\<rparr>
      in case hook (tick_hook env) w of
           Thrown err w \<Rightarrow> Thrown err w
         | Returned w \<Rightarrow>
             if \<not> paused w then
               (case raf w of
                  Undeclared \<Rightarrow> Thrown ReferenceError w
                | Falsy \<Rightarrow> Returned w
                | Callable \<Rightarrow>
                    (let (n, w) = requestAnimationFrame c w
                     in Returned (w\<lparr>runAnimationFrame := Some n\<rparr>)))
             else Returned w)"

definition runFn :: "collab \<Rightarrow> int \<Rightarrow> nat \<Rightarrow> world \<Rightarrow> outcome" where
  "runFn env date_now c w = runFn_rest env c (runFn_render env (runFn_cpu env date_now c w))"

text \<open>
  The host calling back: an animation frame callback is called once and is then no longer
  pending; an interval callback stays registered. A handle that is not pending calls
  nothing. An error thrown by a callback goes to the host and changes nothing more.
\<close>

definition fireAnimationFrame :: "collab \<Rightarrow> int \<Rightarrow> nat \<Rightarrow> world \<Rightarrow> world" where
  "fireAnimationFrame env date_now n w =
     (case animationFrames w n of
        None \<Rightarrow> w
      | Some c \<Rightarrow>
          world_of (runFn env date_now c (w\<lparr>animationFrames := (animationFrames w)(n := None)\<rparr>)))"

definition fireInterval :: "collab \<Rightarrow> int \<Rightarrow> nat \<Rightarrow> world \<Rightarrow> world" where
  "fireInterval env date_now n w =
     (case intervals w n of
        None \<Rightarrow> w
      | Some c \<Rightarrow> world_of (runFn env date_now c w))"

text \<open>
  The constructor, as far as the fields above go: \<open>options.e\<close> decides whether there is an
  MMU, and the counters start at 0. The collaborator objects it creates (\<open>new CPU6502\<close>,
  \<open>new Apple2IO\<close>, \<open>new MMU\<close>) are given, and so is the host's binding of
  \<open>requestAnimationFrame\<close>. Nothing is scheduled at first.
\<close>

record options =
  opt_enhanced :: bool
  opt_e :: bool
  opt_multiScreen :: bool

definition new_Apple2 :: "options \<Rightarrow> cpu6502 \<Rightarrow> apple2io \<Rightarrow> mmu_state \<Rightarrow> binding \<Rightarrow> world" where
  "new_Apple2 opts cpu0 io0 mmu0 host_raf =
     \<lparr>cpu = cpu0, io = io0, mmu = (if opt_e opts then Some mmu0 else None),
      paused = False, DEBUG = False, TRACE = False, MAX_TRACE = 256, trace = [],
      runTimer = None, runAnimationFrame = None,
      multiScreen = opt_multiScreen opts, frames = 0, renderedFrames = 0,
      raf = host_raf, next_handle = 0, animationFrames = Map.empty, intervals = Map.empty,
      closure_last = (\<lambda>_. 0), next_closure = 0, calls = []\<rparr>"

text \<open>
  What the host can do to an emulator between ticks, and a run of such events. What the
  \<open>tick\<close> hook does during a tick is part of the tick's \<open>collab\<close>.
\<close>

datatype action =
    Run int
  | Stop
  | AnimationFrame collab int nat
  | Interval collab int nat

fun act :: "action \<Rightarrow> world \<Rightarrow> world" where
  "act (Run date_now) w = world_of (run date_now w)"
| "act Stop w = stop w"
| "act (AnimationFrame env date_now n) w = fireAnimationFrame env date_now n w"
| "act (Interval env date_now n) w = fireInterval env date_now n w"

definition exec :: "action list \<Rightarrow> world \<Rightarrow> world" where
  "exec as w = fold act as w"

text \<open>The calls one tick adds to the record, and those of them that concern rendering.\<close>

definition tick_calls :: "collab \<Rightarrow> int \<Rightarrow> nat \<Rightarrow> world \<Rightarrow> call list" where
  "tick_calls env date_now c w =
     drop (length (calls w)) (calls (world_of (runFn env date_now c w)))"

fun is_render :: "call \<Rightarrow> bool" where
  "is_render (Annunciator n r) = True"
| "is_render (VmBlit r) = True"
| "is_render (IoBlit r) = True"
| "is_render other = False"

fun is_stepCycles :: "call \<Rightarrow> bool" where
  "is_stepCycles (StepCycles n) = True"
| "is_stepCycles other = False"

text \<open>
  What a tick consults for the rendering, in the claim's words: the state of the objects
  after the CPU's part, annunciator 0 there, and the result of the blit that decides:
  \<open>io.blit()\<close>, after \<open>vm.blit()\<close> when \<open>multiScreen\<close>, if the annunciator is set, and
  \<open>vm.blit()\<close> otherwise.
\<close>

definition stepped_hw :: "collab \<Rightarrow> int \<Rightarrow> nat \<Rightarrow> world \<Rightarrow> hw" where
  "stepped_hw env date_now c w = the_hw (runFn_cpu env date_now c w)"

definition annunciator0_set :: "collab \<Rightarrow> int \<Rightarrow> nat \<Rightarrow> world \<Rightarrow> bool" where
  "annunciator0_set env date_now c w = io_annunciator (io (stepped_hw env date_now c w)) 0"

definition consulted_blit :: "collab \<Rightarrow> int \<Rightarrow> nat \<Rightarrow> world \<Rightarrow> bool \<times> hw" where
  "consulted_blit env date_now c w =
     (let h = stepped_hw env date_now c w
      in if annunciator0_set env date_now c w then
           io_blit env (if multiScreen w then snd (vm_blit env h) else h)
         else vm_blit env h)"

section \<open>The ProDOS-order loader (js/formats/po.js)\<close>

text \<open>
  The argument \<open>options\<close> of \<open>ProDOS\<close>. A field the caller leaves out is \<open>undefined\<close>,
  here \<open>None\<close>. \<open>o_data\<close> is the nested array form \<open>tracks[track][sector] = [256 bytes]\<close>,
  \<open>o_rawData\<close> the image as one buffer.
\<close>

record po_options =
  o_data :: "byte list list list option"
  o_name :: string
  o_rawData :: "byte list option"
  o_volume :: "nat option"
  o_readOnly :: "bool option"

text \<open>
  The returned \<open>Disk\<close>. \<open>tracks\<close> is a JavaScript array that is filled by assignment to
  its indices: a map from index to element.
\<close>

record disk =
  format :: string
  name :: string
  volume :: nat
  tracks :: "nat \<rightharpoonup> byte list"
  readOnly :: bool
  trackMap :: "nat list option"
  rawTracks :: "byte list list option"

text \<open>\<open>ArrayBuffer.slice(begin, end)\<close> for \<open>0 \<le> begin \<le> end\<close>: both ends are clamped to the buffer.\<close>

definition slice :: "byte list \<Rightarrow> nat \<Rightarrow> nat \<Rightarrow> byte list" where
  "slice buf start stop_at = take (stop_at - start) (drop start buf)"

text \<open>
  Modelled from the spec: \<open>bytify\<close> (js/util) is not part of the sources at hand. The spec has
  a nibble stream as a vector of bytes; packing an array of bytes into a byte array keeps
  its contents.
\<close>

definition bytify :: "byte list \<Rightarrow> byte list" where
  "bytify track = track"

text \<open>
  \<open>explodeSector16\<close> and the interleave table \<open>PO\<close> (js/formats/format_utils) are not part
  of the sources at hand and are parameters: \<open>explodeSector16 volume track physical_sector
  bytes\<close> is the nibble stream of one sector, \<open>PO physical_sector\<close> the logical sector. The
  loader can pass \<open>undefined\<close> (\<open>None\<close>) for the volume and for the sector.
\<close>

type_synonym explode = "nat option \<Rightarrow> nat \<Rightarrow> nat \<Rightarrow> byte list option \<Rightarrow> byte list"

text \<open>
  The sector handed to \<open>explodeSector16\<close>: lines 35 to 42. Indexing \<open>undefined\<close> raises a
  TypeError; indexing an array out of range gives \<open>undefined\<close>.
\<close>

definition read_sector :: "(nat \<Rightarrow> nat) \<Rightarrow> po_options \<Rightarrow> nat \<Rightarrow> nat \<Rightarrow> error + byte list option" where
  "read_sector PO opts physical_track physical_sector =
     (let prodos_sector = PO physical_sector
      in case o_rawData opts of
           Some rawData \<Rightarrow>
             (let off = (16 * physical_track + prodos_sector) * 256
              in Inr (Some (slice rawData off (off + 256))))
         | None \<Rightarrow>
             (case o_data opts of
                None \<Rightarrow> Inl TypeError
              | Some d \<Rightarrow>
                  if physical_track < length d then
                    (let row = d ! physical_track
                     in Inr (if prodos_sector < length row then Some (row ! prodos_sector) else None))
                  else Inl TypeError))"

text \<open>The inner loop, from \<open>physical_sector\<close> on, with the nibbles of the track so far.\<close>

function sector_loop ::
  "explode \<Rightarrow> (nat \<Rightarrow> nat) \<Rightarrow> po_options \<Rightarrow> nat \<Rightarrow> nat \<Rightarrow> byte list \<Rightarrow> error + byte list" where
  "sector_loop explodeSector16 PO opts physical_track physical_sector track =
     (if physical_sector < 16 then
        (case read_sector PO opts physical_track physical_sector of
           Inl err \<Rightarrow> Inl err
         | Inr sector \<Rightarrow>
             sector_loop explodeSector16 PO opts physical_track (physical_sector + 1)
               (track @ explodeSector16 (o_volume opts) physical_track physical_sector sector))
      else Inr track)"
  by pat_completeness auto
termination
  by (relation "measure (\<lambda>(ex, PO, opts, t, ps, track). 16 - ps)") auto

text \<open>The outer loop, from \<open>physical_track\<close> on, with the disk so far.\<close>

function track_loop ::
  "explode \<Rightarrow> (nat \<Rightarrow> nat) \<Rightarrow> po_options \<Rightarrow> nat \<Rightarrow> disk \<Rightarrow> error + disk" where
  "track_loop explodeSector16 PO opts physical_track dsk =
     (if physical_track < 35 then
        (case sector_loop explodeSector16 PO opts physical_track 0 [] of
           Inl err \<Rightarrow> Inl err
         | Inr track \<Rightarrow>
             track_loop explodeSector16 PO opts (physical_track + 1)
               (dsk\<lparr>tracks := (tracks dsk)(physical_track \<mapsto> bytify track)\<rparr>))
      else Inr dsk)"
  by pat_completeness auto
termination
  by (relation "measure (\<lambda>(ex, PO, opts, t, dsk). 35 - t)") auto

definition ProDOS :: "explode \<Rightarrow> (nat \<Rightarrow> nat) \<Rightarrow> po_options \<Rightarrow> error + disk" where
  "ProDOS explodeSector16 PO opts =
     track_loop explodeSector16 PO opts 0
       \<lparr>format = ''nib'',
        name = o_name opts,
        volume = (case o_volume opts of Some v \<Rightarrow> if v \<noteq> 0 then v else 254 | None \<Rightarrow> 254),
        tracks = Map.empty,
        readOnly = (case o_readOnly opts of Some b \<Rightarrow> b | None \<Rightarrow> False),
        trackMap = None,
        rawTracks = None\<rparr>"

text \<open>
  The claim's words for one track: the concatenation, over the physical sectors 0 to 15 in
  order, of the nibbles of the 256 bytes at offset \<open>(16 * t + PO p) * 256\<close> of the image.
\<close>

definition logical_sector :: "(nat \<Rightarrow> nat) \<Rightarrow> byte list \<Rightarrow> nat \<Rightarrow> nat \<Rightarrow> byte list" where
  "logical_sector PO raw t p = take 256 (drop ((16 * t + PO p) * 256) raw)"

definition nibblized_track ::
  "explode \<Rightarrow> (nat \<Rightarrow> nat) \<Rightarrow> nat option \<Rightarrow> byte list \<Rightarrow> nat \<Rightarrow> byte list" where
  "nibblized_track explodeSector16 PO vol raw t =
     concat (map (\<lambda>p. explodeSector16 vol t p (Some (logical_sector PO raw t p))) [0..<16])"

text \<open>
  A stand-in for \<open>explodeSector16\<close> that shows which volume it was given: one byte per
  sector, the volume, or 0 for \<open>undefined\<close>.
\<close>

definition volume_probe :: explode where
  "volume_probe vol t p sector = [case vol of None \<Rightarrow> 0 | Some v \<Rightarrow> of_nat v]"

section \<open>Loading disk images in the host (js/ui/apple2.ts)\<close>



text \<open>\<open>s.split(sep)\<close> for a separator of one character, and \<open>parts.join(sep)\<close>.\<close>

fun split :: "char \<Rightarrow> string \<Rightarrow> string list" where
  "split sep [] = [[]]"
| "split sep (ch # rest) =
     (if ch = sep then [] # split sep rest
      else (case split sep rest of
              [] \<Rightarrow> [[ch]]
            | part # parts \<Rightarrow> (ch # part) # parts))"











section \<open>Examples\<close>

text \<open>An Apple IIe at 1023 kHz, just constructed, in a host with animation frames.\<close>

definition example_cpu :: cpu6502 where
  "example_cpu = \<lparr>reg_a = 0, reg_x = 0, reg_y = 0, reg_sp = 0xFD, reg_pc = 0xFA62, reg_flags = 0x24,
     cycles = 0, irq_pending = False, nmi_pending = False, reset_pending = False\<rparr>"

definition example_io :: apple2io where
  "example_io = \<lparr>kHz = 1023, annunciators = [False, False, False, False]\<rparr>"

definition example_options :: options where
  "example_options = \<lparr>opt_enhanced = True, opt_e = True, opt_multiScreen = False\<rparr>"

definition example_collab :: collab where
  "example_collab =
     \<lparr>cpu_stepCycles = (\<lambda>n h. h), cpu_stepCyclesDebug = (\<lambda>n h. ([], h)),
      mmu_resetVB = (\<lambda>h. h), vm_blit = (\<lambda>h. (True, h)), io_blit = (\<lambda>h. (False, h)),
      io_tick = (\<lambda>h. h), tick_hook = []\<rparr>"

definition example_world :: world where
  "example_world = new_Apple2 example_options example_cpu example_io \<lparr>latches = 0\<rparr> Callable"

text \<open>
  The same emulator in a host whose \<open>requestAnimationFrame\<close> is falsy, and two \<open>tick\<close>
  hooks: \<open>() => apple2.stop()\<close>, and \<open>() => { apple2.stop(); apple2.run() }\<close> run at
  time 116.
\<close>

definition timer_world :: world where
  "timer_world = new_Apple2 example_options example_cpu example_io \<lparr>latches = 0\<rparr> Falsy"

definition stopping_collab :: collab where
  "stopping_collab = example_collab\<lparr>tick_hook := [CallStop]\<rparr>"

definition restarting_collab :: collab where
  "restarting_collab = example_collab\<lparr>tick_hook := [CallStop, CallRun 116]\<rparr>"

text \<open>
  For the loaders: an interleave table (0, 8, 1, 9, ..., 7, 15), a blank floppy image,
  an image of 800 KB, and a host environment in which both cards accept every image. \<open>ascii_toLowerCase\<close> is \<open>toLowerCase\<close> on ASCII strings; the stand-in for
  \<open>decodeURIComponent\<close> is right on strings without \<open>%\<close> and on \<open>100%\<close>, where the
  built-in throws a URIError.
\<close>

definition example_PO :: "nat \<Rightarrow> nat" where
  "example_PO p = (if even p then p div 2 else 8 + p div 2)"

definition blank_image :: "byte list" where
  "blank_image = replicate (35 * 16 * 256) 0"

definition example_po_options :: po_options where
  "example_po_options =
     \<lparr>o_data = None, o_name = ''blank'', o_rawData = Some blank_image, o_volume = None,
      o_readOnly = None\<rparr>"




section \<open>Properties of the emulator core\<close>

lemma the_hw_simps [simp]:
  "the_hw (put_hw h w) = h"
  "the_hw (w\<lparr>calls := cs\<rparr>) = the_hw w"
  "the_hw (w\<lparr>renderedFrames := n\<rparr>) = the_hw w"
  "the_hw (w\<lparr>frames := n\<rparr>) = the_hw w"
  "cpu (the_hw w) = cpu w" "io (the_hw w) = io w" "mmu (the_hw w) = mmu w"
  by (simp_all add: the_hw_def put_hw_def)

lemma put_hw_fields [simp]:
  "paused (put_hw h w) = paused w"
  "DEBUG (put_hw h w) = DEBUG w"
  "TRACE (put_hw h w) = TRACE w"
  "MAX_TRACE (put_hw h w) = MAX_TRACE w"
  "trace (put_hw h w) = trace w"
  "runTimer (put_hw h w) = runTimer w"
  "runAnimationFrame (put_hw h w) = runAnimationFrame w"
  "multiScreen (put_hw h w) = multiScreen w"
  "frames (put_hw h w) = frames w"
  "renderedFrames (put_hw h w) = renderedFrames w"
  "raf (put_hw h w) = raf w"
  "next_handle (put_hw h w) = next_handle w"
  "animationFrames (put_hw h w) = animationFrames w"
  "intervals (put_hw h w) = intervals w"
  "closure_last (put_hw h w) = closure_last w"
  "next_closure (put_hw h w) = next_closure w"
  "calls (put_hw h w) = calls w"
  "io (put_hw h w) = io h"
  by (simp_all add: put_hw_def)

lemma call_do_fields [simp]:
  "paused (call_do ev f w) = paused w"
  "DEBUG (call_do ev f w) = DEBUG w"
  "TRACE (call_do ev f w) = TRACE w"
  "MAX_TRACE (call_do ev f w) = MAX_TRACE w"
  "trace (call_do ev f w) = trace w"
  "runTimer (call_do ev f w) = runTimer w"
  "runAnimationFrame (call_do ev f w) = runAnimationFrame w"
  "multiScreen (call_do ev f w) = multiScreen w"
  "frames (call_do ev f w) = frames w"
  "renderedFrames (call_do ev f w) = renderedFrames w"
  "raf (call_do ev f w) = raf w"
  "next_handle (call_do ev f w) = next_handle w"
  "animationFrames (call_do ev f w) = animationFrames w"
  "intervals (call_do ev f w) = intervals w"
  "closure_last (call_do ev f w) = closure_last w"
  "next_closure (call_do ev f w) = next_closure w"
  "calls (call_do ev f w) = calls w @ [ev]"
  "the_hw (call_do ev f w) = f (the_hw w)"
  by (simp_all add: call_do_def)

lemma call_result_fields [simp]:
  "paused (snd (call_result ev g w)) = paused w"
  "DEBUG (snd (call_result ev g w)) = DEBUG w"
  "TRACE (snd (call_result ev g w)) = TRACE w"
  "MAX_TRACE (snd (call_result ev g w)) = MAX_TRACE w"
  "trace (snd (call_result ev g w)) = trace w"
  "runTimer (snd (call_result ev g w)) = runTimer w"
  "runAnimationFrame (snd (call_result ev g w)) = runAnimationFrame w"
  "multiScreen (snd (call_result ev g w)) = multiScreen w"
  "frames (snd (call_result ev g w)) = frames w"
  "renderedFrames (snd (call_result ev g w)) = renderedFrames w"
  "raf (snd (call_result ev g w)) = raf w"
  "next_handle (snd (call_result ev g w)) = next_handle w"
  "animationFrames (snd (call_result ev g w)) = animationFrames w"
  "intervals (snd (call_result ev g w)) = intervals w"
  "closure_last (snd (call_result ev g w)) = closure_last w"
  "next_closure (snd (call_result ev g w)) = next_closure w"
  "calls (snd (call_result ev g w)) = calls w @ [ev (fst (g (the_hw w)))]"
  "the_hw (snd (call_result ev g w)) = snd (g (the_hw w))"
  "fst (call_result ev g w) = fst (g (the_hw w))"
  by (simp_all add: call_result_def split_def)

lemma call_io_fields [simp]:
  "fst (call_io ev r w) = r (io w)"
  "snd (call_io ev r w) = w\<lparr>calls := calls w @ [ev (r (io w))]\<rparr>"
  by (simp_all add: call_io_def Let_def)

lemma trace_callback_fields [simp]:
  "paused (trace_callback l w) = paused w"
  "DEBUG (trace_callback l w) = DEBUG w"
  "TRACE (trace_callback l w) = TRACE w"
  "MAX_TRACE (trace_callback l w) = MAX_TRACE w"
  "runTimer (trace_callback l w) = runTimer w"
  "runAnimationFrame (trace_callback l w) = runAnimationFrame w"
  "multiScreen (trace_callback l w) = multiScreen w"
  "frames (trace_callback l w) = frames w"
  "renderedFrames (trace_callback l w) = renderedFrames w"
  "raf (trace_callback l w) = raf w"
  "next_handle (trace_callback l w) = next_handle w"
  "animationFrames (trace_callback l w) = animationFrames w"
  "intervals (trace_callback l w) = intervals w"
  "closure_last (trace_callback l w) = closure_last w"
  "next_closure (trace_callback l w) = next_closure w"
  "the_hw (trace_callback l w) = the_hw w"
  by (simp_all add: trace_callback_def Let_def the_hw_def)

lemma fold_trace_callback_fields [simp]:
  "paused (fold trace_callback ls w) = paused w"
  "DEBUG (fold trace_callback ls w) = DEBUG w"
  "TRACE (fold trace_callback ls w) = TRACE w"
  "MAX_TRACE (fold trace_callback ls w) = MAX_TRACE w"
  "runTimer (fold trace_callback ls w) = runTimer w"
  "runAnimationFrame (fold trace_callback ls w) = runAnimationFrame w"
  "multiScreen (fold trace_callback ls w) = multiScreen w"
  "frames (fold trace_callback ls w) = frames w"
  "renderedFrames (fold trace_callback ls w) = renderedFrames w"
  "raf (fold trace_callback ls w) = raf w"
  "next_handle (fold trace_callback ls w) = next_handle w"
  "animationFrames (fold trace_callback ls w) = animationFrames w"
  "intervals (fold trace_callback ls w) = intervals w"
  "closure_last (fold trace_callback ls w) = closure_last w"
  "next_closure (fold trace_callback ls w) = next_closure w"
  "the_hw (fold trace_callback ls w) = the_hw w"
  by (induction ls arbitrary: w; simp)+

lemma fold_trace_callback_calls:
  "calls (fold trace_callback ls w) = calls w @ (if TRACE w then map Debug ls else [])"
  by (induction ls arbitrary: w) (simp_all add: trace_callback_def Let_def)

lemma runFn_cpu_fields [simp]:
  "paused (runFn_cpu env now c w) = paused w"
  "runTimer (runFn_cpu env now c w) = runTimer w"
  "runAnimationFrame (runFn_cpu env now c w) = runAnimationFrame w"
  "multiScreen (runFn_cpu env now c w) = multiScreen w"
  "frames (runFn_cpu env now c w) = frames w"
  "renderedFrames (runFn_cpu env now c w) = renderedFrames w"
  "raf (runFn_cpu env now c w) = raf w"
  "next_handle (runFn_cpu env now c w) = next_handle w"
  "animationFrames (runFn_cpu env now c w) = animationFrames w"
  "intervals (runFn_cpu env now c w) = intervals w"
  "DEBUG (runFn_cpu env now c w) = DEBUG w"
  "next_closure (runFn_cpu env now c w) = next_closure w"
  "closure_last (runFn_cpu env now c w) = (closure_last w)(c := now)"
  by (simp_all add: runFn_cpu_def Let_def split_def)

lemma runFn_render_fields [simp]:
  "paused (runFn_render env w) = paused w"
  "runTimer (runFn_render env w) = runTimer w"
  "runAnimationFrame (runFn_render env w) = runAnimationFrame w"
  "multiScreen (runFn_render env w) = multiScreen w"
  "frames (runFn_render env w) = frames w"
  "raf (runFn_render env w) = raf w"
  "next_handle (runFn_render env w) = next_handle w"
  "animationFrames (runFn_render env w) = animationFrames w"
  "intervals (runFn_render env w) = intervals w"
  "DEBUG (runFn_render env w) = DEBUG w"
  "next_closure (runFn_render env w) = next_closure w"
  "closure_last (runFn_render env w) = closure_last w"
  by (simp_all add: runFn_render_def Let_def split_def)

lemma run_fields [simp]:
  "paused (world_of (run start w)) = paused w"
  "DEBUG (world_of (run start w)) = DEBUG w"
  "multiScreen (world_of (run start w)) = multiScreen w"
  "frames (world_of (run start w)) = frames w"
  "renderedFrames (world_of (run start w)) = renderedFrames w"
  "raf (world_of (run start w)) = raf w"
  "calls (world_of (run start w)) = calls w"
  by (simp_all add: run_def Let_def split_def requestAnimationFrame_def setInterval_def
      split: binding.splits)


lemma stop_fields [simp]:
  "paused (stop w) = paused w"
  "DEBUG (stop w) = DEBUG w"
  "multiScreen (stop w) = multiScreen w"
  "frames (stop w) = frames w"
  "renderedFrames (stop w) = renderedFrames w"
  "raf (stop w) = raf w"
  "calls (stop w) = calls w"
  "runTimer (stop w) = None"
  "runAnimationFrame (stop w) = None"
  "next_closure (stop w) = next_closure w"
  "closure_last (stop w) = closure_last w"
  by (simp_all add: stop_def Let_def cancelAnimationFrame_def clearInterval_def
      split: option.splits)

lemma hook_call_fields [simp]:
  "paused (world_of (hook_call s w)) = paused w"
  "DEBUG (world_of (hook_call s w)) = DEBUG w"
  "multiScreen (world_of (hook_call s w)) = multiScreen w"
  "frames (world_of (hook_call s w)) = frames w"
  "renderedFrames (world_of (hook_call s w)) = renderedFrames w"
  "raf (world_of (hook_call s w)) = raf w"
  "calls (world_of (hook_call s w)) = calls w"
  by (cases s; simp)+


lemma hook_preserves:
  assumes "\<And>s w. f (world_of (hook_call s w)) = f w"
  shows "f (world_of (hook ss w)) = f w"
proof (induction ss arbitrary: w)
  case Nil
  show ?case by simp
next
  case (Cons s ss)
  show ?case
    using Cons.IH [of "world_of (hook_call s w)"] assms [of s w]
    by (cases "hook_call s w") simp_all
qed

lemma hook_fields [simp]:
  "paused (world_of (hook ss w)) = paused w"
  "DEBUG (world_of (hook ss w)) = DEBUG w"
  "multiScreen (world_of (hook ss w)) = multiScreen w"
  "frames (world_of (hook ss w)) = frames w"
  "renderedFrames (world_of (hook ss w)) = renderedFrames w"
  "raf (world_of (hook ss w)) = raf w"
  "calls (world_of (hook ss w)) = calls w"
  by (rule hook_preserves, simp)+


lemma runFn_rest_preserves:
  assumes "\<And>v n m h. f (v\<lparr>next_handle := n, animationFrames := m, runAnimationFrame := h\<rparr>) = f v"
  shows "f (world_of (runFn_rest env c w)) =
     f (world_of (hook (tick_hook env)
         ((call_do IoTick (io_tick env) (w\<lparr>frames := frames w + 1\<rparr>))
            \<lparr>calls := calls w @ [IoTick, Tick]\<rparr>)))"
proof (cases "hook (tick_hook env)
         ((call_do IoTick (io_tick env) (w\<lparr>frames := frames w + 1\<rparr>))
            \<lparr>calls := calls w @ [IoTick, Tick]\<rparr>)")
  case (Returned v)
  then show ?thesis
    by (simp add: runFn_rest_def Let_def requestAnimationFrame_def assms split: binding.splits)
next
  case (Thrown err v)
  then show ?thesis
    by (simp add: runFn_rest_def Let_def)
qed

lemma runFn_rest_fields [simp]:
  "paused (world_of (runFn_rest env c w)) = paused w"
  "multiScreen (world_of (runFn_rest env c w)) = multiScreen w"
  "frames (world_of (runFn_rest env c w)) = frames w + 1"
  "renderedFrames (world_of (runFn_rest env c w)) = renderedFrames w"
  "raf (world_of (runFn_rest env c w)) = raf w"
  "DEBUG (world_of (runFn_rest env c w)) = DEBUG w"
  "calls (world_of (runFn_rest env c w)) = calls w @ [IoTick, Tick]"
  by (subst runFn_rest_preserves, simp, simp)+


lemma runFn_fields [simp]:
  "paused (world_of (runFn env now c w)) = paused w"
  "multiScreen (world_of (runFn env now c w)) = multiScreen w"
  "frames (world_of (runFn env now c w)) = frames w + 1"
  "raf (world_of (runFn env now c w)) = raf w"
  "DEBUG (world_of (runFn env now c w)) = DEBUG w"
  by (simp_all add: runFn_def)


lemma runFn_cpu_calls:
  "\<exists>rest. calls (runFn_cpu env now c w) =
      calls w @ GetKHz (kHz (io w)) #
        (if DEBUG w then StepCyclesDebug (if TRACE w then 1
             else min ((now - closure_last w c) * kHz (io w)) (kHz (io w) * 30))
         else StepCycles (min ((now - closure_last w c) * kHz (io w)) (kHz (io w) * 30))) # rest
      \<and> filter is_render rest = [] \<and> filter is_stepCycles rest = []"
  by (simp add: runFn_cpu_def Let_def split_def fold_trace_callback_calls io_getKHz_def
      interval_def min_def)

lemma runFn_render_eq:
  "calls (runFn_render env w) =
     calls w @ Annunciator 0 (io_annunciator (io w) 0) #
       (if io_annunciator (io w) 0 then
          (if multiScreen w then [VmBlit (fst (vm_blit env (the_hw w)))] else []) @
          [IoBlit (fst (io_blit env (if multiScreen w then snd (vm_blit env (the_hw w))
                                     else the_hw w)))]
        else [VmBlit (fst (vm_blit env (the_hw w)))])"
  "renderedFrames (runFn_render env w) =
     renderedFrames w +
       (if fst (if io_annunciator (io w) 0
                then io_blit env (if multiScreen w then snd (vm_blit env (the_hw w)) else the_hw w)
                else vm_blit env (the_hw w))
        then 1 else 0)"
  "the_hw (runFn_render env w) =
     snd (if io_annunciator (io w) 0
          then io_blit env (if multiScreen w then snd (vm_blit env (the_hw w)) else the_hw w)
          else vm_blit env (the_hw w))"
  by (simp_all add: runFn_render_def Let_def split_def)

lemma runFn_renderedFrames:
  "renderedFrames w \<le> renderedFrames (world_of (runFn env now c w)) \<and>
   renderedFrames (world_of (runFn env now c w)) \<le> renderedFrames w + 1"
  by (simp add: runFn_def runFn_render_eq(2))

lemma tick_calls_eq:
  "\<exists>rest.
     tick_calls env now c w =
       GetKHz (kHz (io w)) #
       (if DEBUG w then StepCyclesDebug (if TRACE w then 1
            else min ((now - closure_last w c) * kHz (io w)) (kHz (io w) * 30))
        else StepCycles (min ((now - closure_last w c) * kHz (io w)) (kHz (io w) * 30))) #
       rest @
       Annunciator 0 (annunciator0_set env now c w) #
       (if annunciator0_set env now c w then
          (if multiScreen w then [VmBlit (fst (vm_blit env (stepped_hw env now c w)))] else []) @
          [IoBlit (fst (consulted_blit env now c w))]
        else [VmBlit (fst (consulted_blit env now c w))]) @
       [IoTick, Tick] \<and>
     filter is_render rest = [] \<and> filter is_stepCycles rest = []"
proof -
  let ?w1 = "runFn_cpu env now c w"
  obtain rest where 1: "calls ?w1 =
      calls w @ GetKHz (kHz (io w)) #
        (if DEBUG w then StepCyclesDebug (if TRACE w then 1
             else min ((now - closure_last w c) * kHz (io w)) (kHz (io w) * 30))
         else StepCycles (min ((now - closure_last w c) * kHz (io w)) (kHz (io w) * 30))) # rest"
    and rest: "filter is_render rest = []" "filter is_stepCycles rest = []"
    using runFn_cpu_calls [of env now c w] by blast
  have "tick_calls env now c w =
       GetKHz (kHz (io w)) #
       (if DEBUG w then StepCyclesDebug (if TRACE w then 1
            else min ((now - closure_last w c) * kHz (io w)) (kHz (io w) * 30))
        else StepCycles (min ((now - closure_last w c) * kHz (io w)) (kHz (io w) * 30))) #
       rest @
       Annunciator 0 (annunciator0_set env now c w) #
       (if annunciator0_set env now c w then
          (if multiScreen w then [VmBlit (fst (vm_blit env (stepped_hw env now c w)))] else []) @
          [IoBlit (fst (consulted_blit env now c w))]
        else [VmBlit (fst (consulted_blit env now c w))]) @
       [IoTick, Tick]"
    by (simp add: tick_calls_def runFn_def 1 runFn_render_eq(1) annunciator0_set_def
        stepped_hw_def consulted_blit_def)
  with rest show ?thesis by blast
qed

lemma act_DEBUG [simp]: "DEBUG (act a w) = DEBUG w"
  by (cases a) (simp_all add: fireAnimationFrame_def fireInterval_def split: option.splits)

lemma exec_DEBUG [simp]: "DEBUG (exec as w) = DEBUG w"
  unfolding exec_def by (induction as arbitrary: w) simp_all

lemma act_frames: "frames w \<le> frames (act a w) \<and> frames (act a w) \<le> frames w + 1"
  by (cases a) (simp_all add: fireAnimationFrame_def fireInterval_def split: option.splits)

lemma act_renderedFrames:
  "renderedFrames w \<le> renderedFrames (act a w) \<and>
   renderedFrames (act a w) + frames w \<le> renderedFrames w + frames (act a w)"
proof (cases a)
  case (AnimationFrame env now n)
  show ?thesis
  proof (cases "animationFrames w n")
    case None
    with AnimationFrame show ?thesis by (simp add: fireAnimationFrame_def)
  next
    case (Some c)
    with AnimationFrame show ?thesis
      using runFn_renderedFrames [of "w\<lparr>animationFrames := (animationFrames w)(n := None)\<rparr>" env now c]
      by (simp add: fireAnimationFrame_def)
  qed
next
  case (Interval env now n)
  show ?thesis
  proof (cases "intervals w n")
    case None
    with Interval show ?thesis by (simp add: fireInterval_def)
  next
    case (Some c)
    with Interval show ?thesis
      using runFn_renderedFrames [of w env now c]
      by (simp add: fireInterval_def)
  qed
qed simp_all

lemma exec_counters:
  "frames w \<le> frames (exec as w) \<and> renderedFrames w \<le> renderedFrames (exec as w) \<and>
   renderedFrames (exec as w) + frames w \<le> renderedFrames w + frames (exec as w)"
  unfolding exec_def
proof (induction as arbitrary: w)
  case Nil
  show ?case by simp
next
  case (Cons a as)
  from Cons.IH [of "act a w"] act_frames [of w a] act_renderedFrames [of w a]
  show ?case by simp
qed

lemma new_Apple2_fields [simp]:
  "DEBUG (new_Apple2 opts cpu0 io0 mmu0 host_raf) = False"
  "frames (new_Apple2 opts cpu0 io0 mmu0 host_raf) = 0"
  "renderedFrames (new_Apple2 opts cpu0 io0 mmu0 host_raf) = 0"
  by (simp_all add: new_Apple2_def)


text \<open>
  C1, as stated, fails: two emulators that differ in an I/O latch (annunciator 0) and in
  the MMU latches have the same snapshot, so the snapshot contains neither.
\<close>

theorem getState_counterexample:
  "getState example_world =
     getState (example_world\<lparr>io := \<lparr>kHz = 1023, annunciators = [True, False, False, False]\<rparr>,
                             mmu := Some \<lparr>latches = 1\<rparr>\<rparr>) \<and>
   io example_world \<noteq> \<lparr>kHz = 1023, annunciators = [True, False, False, False]\<rparr> \<and>
   mmu example_world \<noteq> Some \<lparr>latches = 1\<rparr>"
  by (simp add: getState_def example_world_def new_Apple2_def example_io_def example_options_def)

text \<open>
  C1, amended: \<open>getState()\<close> returns a structure with the single field \<open>cpu\<close>, the CPU's
  snapshot (registers and cycle counter); it does not depend on the I/O or MMU state.
\<close>

theorem getState_cpu_only:
  "getState s =
     \<lparr>state_cpu = \<lparr>reg_a = reg_a (cpu s), reg_x = reg_x (cpu s), reg_y = reg_y (cpu s),
        reg_sp = reg_sp (cpu s), reg_pc = reg_pc (cpu s), reg_flags = reg_flags (cpu s),
        cycles = cycles (cpu s)\<rparr>\<rparr> \<and>
   getState (s\<lparr>io := i, mmu := m\<rparr>) = getState s"
  by (simp add: getState_def CPU6502_getState_def)

text \<open>
  C2: \<open>setState(getState())\<close> leaves the emulator as it was, and a following \<open>getState()\<close>
  returns the snapshot that was restored (also when it is restored into another emulator).
\<close>

theorem setState_getState:
  "setState (getState s) s = s \<and>
   getState (setState (getState s) s) = getState s \<and>
   getState (setState (getState s) s') = getState s"
  by (simp add: setState_def getState_def CPU6502_getState_def CPU6502_setState_def)


lemma example_running:
  "exec [Run 100] example_world =
     example_world\<lparr>runAnimationFrame := Some 1, next_handle := 1,
       animationFrames := [1 \<mapsto> 0], closure_last := (\<lambda>_. 0)(0 := 100), next_closure := 1\<rparr>"
  by (simp add: exec_def run_def truthy_def requestAnimationFrame_def Let_def
      example_world_def new_Apple2_def)




text \<open>
  C4: of the rendering calls of a tick, the first asks for annunciator 0 and returns it
  as the CPU's part of the tick has left it; if it is set, \<open>io.blit()\<close> follows, after
  \<open>vm.blit()\<close> when \<open>multiScreen\<close>, and otherwise \<open>vm.blit()\<close> alone, each applied to the
  objects as they are then; \<open>renderedFrames\<close> goes up by one exactly when the blit whose
  result the code looks at, \<open>io.blit()\<close> or else \<open>vm.blit()\<close>, returns true.
\<close>

theorem runFn_renders:
  "filter is_render (tick_calls env now c w) =
     Annunciator 0 (annunciator0_set env now c w) #
     (if annunciator0_set env now c w then
        (if multiScreen w then [VmBlit (fst (vm_blit env (stepped_hw env now c w)))] else []) @
        [IoBlit (fst (consulted_blit env now c w))]
      else [VmBlit (fst (consulted_blit env now c w))]) \<and>
   consulted_blit env now c w =
     (if io_annunciator (io (runFn_cpu env now c w)) 0 then
        io_blit env (if multiScreen w then snd (vm_blit env (the_hw (runFn_cpu env now c w)))
                     else the_hw (runFn_cpu env now c w))
      else vm_blit env (the_hw (runFn_cpu env now c w))) \<and>
   the_hw (runFn_render env (runFn_cpu env now c w)) = snd (consulted_blit env now c w) \<and>
   renderedFrames (world_of (runFn env now c w)) =
     renderedFrames w + (if fst (consulted_blit env now c w) then 1 else 0)"
proof -
  obtain rest where t: "tick_calls env now c w =
       GetKHz (kHz (io w)) #
       (if DEBUG w then StepCyclesDebug (if TRACE w then 1
            else min ((now - closure_last w c) * kHz (io w)) (kHz (io w) * 30))
        else StepCycles (min ((now - closure_last w c) * kHz (io w)) (kHz (io w) * 30))) #
       rest @
       Annunciator 0 (annunciator0_set env now c w) #
       (if annunciator0_set env now c w then
          (if multiScreen w then [VmBlit (fst (vm_blit env (stepped_hw env now c w)))] else []) @
          [IoBlit (fst (consulted_blit env now c w))]
        else [VmBlit (fst (consulted_blit env now c w))]) @
       [IoTick, Tick]"
    and rest: "filter is_render rest = []"
    using tick_calls_eq [of env now c w] by blast
  have 1: "filter is_render (tick_calls env now c w) =
     Annunciator 0 (annunciator0_set env now c w) #
     (if annunciator0_set env now c w then
        (if multiScreen w then [VmBlit (fst (vm_blit env (stepped_hw env now c w)))] else []) @
        [IoBlit (fst (consulted_blit env now c w))]
      else [VmBlit (fst (consulted_blit env now c w))])"
    by (simp add: t rest)
  have 2: "consulted_blit env now c w =
     (if io_annunciator (io (runFn_cpu env now c w)) 0 then
        io_blit env (if multiScreen w then snd (vm_blit env (the_hw (runFn_cpu env now c w)))
                     else the_hw (runFn_cpu env now c w))
      else vm_blit env (the_hw (runFn_cpu env now c w)))"
    by (simp add: consulted_blit_def annunciator0_set_def stepped_hw_def)
  have 3: "the_hw (runFn_render env (runFn_cpu env now c w)) = snd (consulted_blit env now c w)"
    by (simp add: 2 runFn_render_eq(3))
  have 4: "renderedFrames (world_of (runFn env now c w)) =
     renderedFrames w + (if fst (consulted_blit env now c w) then 1 else 0)"
    by (simp add: 2 runFn_def runFn_render_eq(2))
  from 1 2 3 4 show ?thesis by blast
qed

text \<open>
  C5: a tick adds exactly 1 to \<open>frames\<close> and 0 or 1 to \<open>renderedFrames\<close>; no event makes
  either counter smaller; both start at 0, and \<open>renderedFrames\<close> never exceeds \<open>frames\<close>.
\<close>

theorem stats_monotone:
  "frames (world_of (runFn env now c w)) = frames w + 1 \<and>
   renderedFrames w \<le> renderedFrames (world_of (runFn env now c w)) \<and>
   renderedFrames (world_of (runFn env now c w)) \<le> renderedFrames w + 1 \<and>
   frames w \<le> frames (act a w) \<and>
   renderedFrames w \<le> renderedFrames (act a w) \<and>
   frames (new_Apple2 opts cpu0 io0 mmu0 host_raf) = 0 \<and>
   renderedFrames (new_Apple2 opts cpu0 io0 mmu0 host_raf) = 0 \<and>
   renderedFrames (exec as (new_Apple2 opts cpu0 io0 mmu0 host_raf))
     \<le> frames (exec as (new_Apple2 opts cpu0 io0 mmu0 host_raf))"
  using runFn_renderedFrames [of w env now c] act_frames [of w a] act_renderedFrames [of w a]
    exec_counters [of "new_Apple2 opts cpu0 io0 mmu0 host_raf" as]
  by simp

lemma runFn_stop_hook:
  assumes "tick_hook env = [CallStop]" "\<not> paused w"
    "runTimer w = None" "runAnimationFrame w = Some h" "h \<noteq> 0"
  shows "raf w = Callable \<Longrightarrow>
           runAnimationFrame (world_of (runFn env now c w)) = Some (Suc (next_handle w)) \<and>
           animationFrames (world_of (runFn env now c w)) =
             ((animationFrames w)(h := None))(Suc (next_handle w) \<mapsto> c)"
  using assms
  by (simp add: runFn_def runFn_rest_def Let_def stop_def cancelAnimationFrame_def
      requestAnimationFrame_def)

lemma runFn_stop_hook_timer:
  assumes "tick_hook env = [CallStop]" "\<not> paused w"
    "runTimer w = Some h" "runAnimationFrame w = None" "h \<noteq> 0" "raf w = Falsy"
  shows "runTimer (world_of (runFn env now c w)) = None \<and>
         runAnimationFrame (world_of (runFn env now c w)) = None \<and>
         intervals (world_of (runFn env now c w)) = (intervals w)(h := None) \<and>
         animationFrames (world_of (runFn env now c w)) = animationFrames w"
  using assms
  by (simp add: runFn_def runFn_rest_def Let_def stop_def clearInterval_def)

lemma runFn_restart_hook:
  assumes "tick_hook env = [CallStop, CallRun start]" "\<not> paused w"
    "runTimer w = None" "runAnimationFrame w = Some h" "h \<noteq> 0" "raf w = Callable"
  shows "runAnimationFrame (world_of (runFn env now c w)) = Some (Suc (Suc (next_handle w))) \<and>
         animationFrames (world_of (runFn env now c w)) =
           ((animationFrames w)(h := None))
             (Suc (next_handle w) \<mapsto> next_closure w, Suc (Suc (next_handle w)) \<mapsto> c)"
  using assms
  by (simp add: runFn_def runFn_rest_def Let_def stop_def cancelAnimationFrame_def
      run_def truthy_def requestAnimationFrame_def)

lemma exec_snoc: "exec (as @ [a]) w = act a (exec as w)"
  by (simp add: exec_def)

lemma example_running_fields:
  "paused (exec [Run 100] example_world) = False"
  "raf (exec [Run 100] example_world) = Callable"
  "runTimer (exec [Run 100] example_world) = None"
  "runAnimationFrame (exec [Run 100] example_world) = Some 1"
  "next_handle (exec [Run 100] example_world) = 1"
  "next_closure (exec [Run 100] example_world) = 1"
  "animationFrames (exec [Run 100] example_world) = [1 \<mapsto> 0]"
  "frames (exec [Run 100] example_world) = 0"
  by (simp_all add: example_running) (simp_all add: example_world_def new_Apple2_def)

lemma timer_running_fields:
  "paused (exec [Run 100] timer_world) = False"
  "raf (exec [Run 100] timer_world) = Falsy"
  "runTimer (exec [Run 100] timer_world) = Some 1"
  "runAnimationFrame (exec [Run 100] timer_world) = None"
  "intervals (exec [Run 100] timer_world) = [1 \<mapsto> 0]"
  "animationFrames (exec [Run 100] timer_world) = Map.empty"
  by (simp_all add: exec_def run_def truthy_def setInterval_def Let_def
      timer_world_def new_Apple2_def)

lemma stopping_tick:
  "runAnimationFrame (exec [Run 100, AnimationFrame stopping_collab 116 1] example_world) = Some 2"
  "animationFrames (exec [Run 100, AnimationFrame stopping_collab 116 1] example_world) = [2 \<mapsto> 0]"
  "frames (exec [Run 100, AnimationFrame stopping_collab 116 1] example_world) = 1"
proof -
  let ?w = "exec [Run 100] example_world"
  let ?v = "?w\<lparr>animationFrames := (animationFrames ?w)(1 := None)\<rparr>"
  have e: "exec [Run 100, AnimationFrame stopping_collab 116 1] example_world =
      world_of (runFn stopping_collab 116 0 ?v)"
    using exec_snoc [of "[Run 100]" "AnimationFrame stopping_collab 116 1" example_world]
      example_running_fields(7)
    by (simp add: fireAnimationFrame_def)
  have h: "tick_hook stopping_collab = [CallStop]"
    by (simp add: stopping_collab_def)
  have v: "\<not> paused ?v" "runTimer ?v = None" "runAnimationFrame ?v = Some 1" "raf ?v = Callable"
    "next_handle ?v = 1" "animationFrames ?v = Map.empty" "frames ?v = 0"
    using example_running_fields by simp_all
  have "runAnimationFrame (world_of (runFn stopping_collab 116 0 ?v)) = Some 2 \<and>
      animationFrames (world_of (runFn stopping_collab 116 0 ?v)) = [2 \<mapsto> 0]"
    using runFn_stop_hook [OF h v(1,2,3) _ v(4), of 116 0] v(5,6)
    by (simp add: numeral_2_eq_2)
  then show "runAnimationFrame (exec [Run 100, AnimationFrame stopping_collab 116 1] example_world) = Some 2"
    and "animationFrames (exec [Run 100, AnimationFrame stopping_collab 116 1] example_world) = [2 \<mapsto> 0]"
    unfolding e by simp_all
  have "frames (world_of (runFn stopping_collab 116 0 ?v)) = 1"
    using v(7) by simp
  then show "frames (exec [Run 100, AnimationFrame stopping_collab 116 1] example_world) = 1"
    unfolding e .
qed

lemma stopping_tick_timer:
  "runTimer (exec [Run 100, Interval stopping_collab 116 1] timer_world) = None"
  "intervals (exec [Run 100, Interval stopping_collab 116 1] timer_world) = Map.empty"
  "animationFrames (exec [Run 100, Interval stopping_collab 116 1] timer_world) = Map.empty"
proof -
  let ?w = "exec [Run 100] timer_world"
  have e: "exec [Run 100, Interval stopping_collab 116 1] timer_world =
      world_of (runFn stopping_collab 116 0 ?w)"
    using exec_snoc [of "[Run 100]" "Interval stopping_collab 116 1" timer_world]
      timer_running_fields(5)
    by (simp add: fireInterval_def)
  have h: "tick_hook stopping_collab = [CallStop]"
    by (simp add: stopping_collab_def)
  have w: "\<not> paused ?w" "runTimer ?w = Some 1" "runAnimationFrame ?w = None" "raf ?w = Falsy"
    "intervals ?w = [1 \<mapsto> 0]" "animationFrames ?w = Map.empty"
    using timer_running_fields by simp_all
  have "runTimer (world_of (runFn stopping_collab 116 0 ?w)) = None \<and>
      intervals (world_of (runFn stopping_collab 116 0 ?w)) = Map.empty \<and>
      animationFrames (world_of (runFn stopping_collab 116 0 ?w)) = Map.empty"
    using runFn_stop_hook_timer [OF h w(1,2,3) _ w(4), of 116 0] w(5,6) by simp
  then show "runTimer (exec [Run 100, Interval stopping_collab 116 1] timer_world) = None"
    and "intervals (exec [Run 100, Interval stopping_collab 116 1] timer_world) = Map.empty"
    and "animationFrames (exec [Run 100, Interval stopping_collab 116 1] timer_world) = Map.empty"
    unfolding e by simp_all
qed

text \<open>
  C9 fails when \<open>stop()\<close> is called from the \<open>tick\<close> hook in a host with animation
  frames: the emulator runs with handle 1; in the tick of that callback the hook calls
  \<open>stop()\<close>, and the tick then schedules itself again, so that after it handle 2 is held
  and pending, and the next callback is a tick (\<open>frames\<close> goes to 2) although \<open>run()\<close> was
  not called. In a host without animation frames the same hook does end the ticks.
\<close>

theorem stop_in_tick:
  "runAnimationFrame (exec [Run 100] example_world) = Some 1 \<and>
   animationFrames (exec [Run 100] example_world) = [1 \<mapsto> 0] \<and>
   tick_hook stopping_collab = [CallStop] \<and>
   runAnimationFrame (exec [Run 100, AnimationFrame stopping_collab 116 1] example_world) = Some 2 \<and>
   animationFrames (exec [Run 100, AnimationFrame stopping_collab 116 1] example_world) = [2 \<mapsto> 0] \<and>
   frames (exec [Run 100, AnimationFrame stopping_collab 116 1] example_world) = 1 \<and>
   frames (exec [Run 100, AnimationFrame stopping_collab 116 1,
                 AnimationFrame example_collab 132 2] example_world) = 2 \<and>
   runTimer (exec [Run 100, Interval stopping_collab 116 1] timer_world) = None \<and>
   intervals (exec [Run 100, Interval stopping_collab 116 1] timer_world) = Map.empty \<and>
   animationFrames (exec [Run 100, Interval stopping_collab 116 1] timer_world) = Map.empty"
proof -
  let ?w = "exec [Run 100, AnimationFrame stopping_collab 116 1] example_world"
  have "exec [Run 100, AnimationFrame stopping_collab 116 1,
              AnimationFrame example_collab 132 2] example_world =
      fireAnimationFrame example_collab 132 2 ?w"
    using exec_snoc [of "[Run 100, AnimationFrame stopping_collab 116 1]"
        "AnimationFrame example_collab 132 2" example_world]
    by simp
  then have "frames (exec [Run 100, AnimationFrame stopping_collab 116 1,
              AnimationFrame example_collab 132 2] example_world) = 2"
    using stopping_tick by (simp add: fireAnimationFrame_def)
  moreover have "tick_hook stopping_collab = [CallStop]"
    by (simp add: stopping_collab_def)
  ultimately show ?thesis
    using example_running_fields(4,7) stopping_tick stopping_tick_timer by simp
qed

lemma restarting_tick:
  "runAnimationFrame (exec [Run 100, AnimationFrame restarting_collab 116 1] example_world) = Some 3"
  "animationFrames (exec [Run 100, AnimationFrame restarting_collab 116 1] example_world) =
     [2 \<mapsto> 1, 3 \<mapsto> 0]"
proof -
  let ?w = "exec [Run 100] example_world"
  let ?v = "?w\<lparr>animationFrames := (animationFrames ?w)(1 := None)\<rparr>"
  have e: "exec [Run 100, AnimationFrame restarting_collab 116 1] example_world =
      world_of (runFn restarting_collab 116 0 ?v)"
    using exec_snoc [of "[Run 100]" "AnimationFrame restarting_collab 116 1" example_world]
      example_running_fields(7)
    by (simp add: fireAnimationFrame_def)
  have h: "tick_hook restarting_collab = [CallStop, CallRun 116]"
    by (simp add: restarting_collab_def)
  have v: "\<not> paused ?v" "runTimer ?v = None" "runAnimationFrame ?v = Some 1" "raf ?v = Callable"
    "next_handle ?v = 1" "animationFrames ?v = Map.empty" "next_closure ?v = 1"
    using example_running_fields by simp_all
  have "runAnimationFrame (world_of (runFn restarting_collab 116 0 ?v)) = Some 3 \<and>
      animationFrames (world_of (runFn restarting_collab 116 0 ?v)) = [2 \<mapsto> 1, 3 \<mapsto> 0]"
    using runFn_restart_hook [OF h v(1,2,3) _ v(4), of 116 0] v(5,6,7)
    by (simp add: numeral_2_eq_2 numeral_3_eq_3)
  then show "runAnimationFrame (exec [Run 100, AnimationFrame restarting_collab 116 1] example_world) = Some 3"
    and "animationFrames (exec [Run 100, AnimationFrame restarting_collab 116 1] example_world) =
     [2 \<mapsto> 1, 3 \<mapsto> 0]"
    unfolding e by simp_all
qed

text \<open>
  C10 fails when the \<open>tick\<close> hook calls \<open>stop()\<close> and then \<open>run()\<close> in a host with
  animation frames: \<open>run()\<close> schedules a new closure (handle 2), and the tick then
  schedules itself again (handle 3), so two callbacks are pending, of which the emulator
  holds one; a \<open>stop()\<close> of the host then leaves the other pending.
\<close>

theorem restart_in_tick:
  "tick_hook restarting_collab = [CallStop, CallRun 116] \<and>
   runAnimationFrame (exec [Run 100] example_world) = Some 1 \<and>
   animationFrames (exec [Run 100] example_world) = [1 \<mapsto> 0] \<and>
   runAnimationFrame (exec [Run 100, AnimationFrame restarting_collab 116 1] example_world) = Some 3 \<and>
   animationFrames (exec [Run 100, AnimationFrame restarting_collab 116 1] example_world) =
     [2 \<mapsto> 1, 3 \<mapsto> 0] \<and>
   card (dom (animationFrames
     (exec [Run 100, AnimationFrame restarting_collab 116 1] example_world))) = 2 \<and>
   animationFrames (exec [Run 100, AnimationFrame restarting_collab 116 1, Stop] example_world) =
     [2 \<mapsto> 1]"
proof -
  let ?w = "exec [Run 100, AnimationFrame restarting_collab 116 1] example_world"
  have "exec [Run 100, AnimationFrame restarting_collab 116 1, Stop] example_world = stop ?w"
    using exec_snoc [of "[Run 100, AnimationFrame restarting_collab 116 1]" Stop example_world]
    by simp
  moreover have "runTimer ?w = None \<or> (\<exists>n. runTimer ?w = Some n)"
    by (cases "runTimer ?w") simp_all
  ultimately have s: "animationFrames (exec [Run 100, AnimationFrame restarting_collab 116 1, Stop]
      example_world) = [2 \<mapsto> 1]"
    using restarting_tick
    by (auto simp add: stop_def Let_def cancelAnimationFrame_def clearInterval_def fun_eq_iff)
  have c: "card (dom (animationFrames ?w)) = 2"
    using restarting_tick by simp
  have "tick_hook restarting_collab = [CallStop, CallRun 116]"
    by (simp add: restarting_collab_def)
  with s c show ?thesis
    using example_running_fields(4,7) restarting_tick by simp
qed

section \<open>Properties of the loaders\<close>

declare sector_loop.simps [simp del] track_loop.simps [simp del]

lemma read_sector_raw:
  "o_rawData opts = Some raw \<Longrightarrow>
   read_sector PO opts t p = Inr (Some (logical_sector PO raw t p))"
  by (simp add: read_sector_def slice_def logical_sector_def Let_def)

lemma sector_loop_raw:
  assumes "o_rawData opts = Some raw"
  shows "sector_loop ex PO opts t p track =
     Inr (track @ concat (map (\<lambda>q. ex (o_volume opts) t q (Some (logical_sector PO raw t q)))
                           [p..<16]))"
  using assms
proof (induction ex PO opts t p track rule: sector_loop.induct)
  case (1 ex PO opts t p track)
  show ?case
  proof (cases "p < 16")
    case True
    have rs: "read_sector PO opts t p = Inr (Some (logical_sector PO raw t p))"
      using "1.prems" by (rule read_sector_raw)
    have "sector_loop ex PO opts t p track =
        sector_loop ex PO opts t (p + 1)
          (track @ ex (o_volume opts) t p (Some (logical_sector PO raw t p)))"
      by (subst sector_loop.simps) (simp add: True rs)
    also have "\<dots> = Inr ((track @ ex (o_volume opts) t p (Some (logical_sector PO raw t p))) @
        concat (map (\<lambda>q. ex (o_volume opts) t q (Some (logical_sector PO raw t q)))
                 [p + 1..<16]))"
      by (rule "1.IH" [OF True rs "1.prems"])
    finally show ?thesis using True by (simp add: upt_conv_Cons)
  next
    case False
    then show ?thesis by (subst sector_loop.simps) simp
  qed
qed

lemma sector_loop_track:
  "o_rawData opts = Some raw \<Longrightarrow>
   sector_loop ex PO opts t 0 [] = Inr (nibblized_track ex PO (o_volume opts) raw t)"
  by (simp add: sector_loop_raw nibblized_track_def)

lemma track_loop_raw:
  assumes "o_rawData opts = Some raw"
  shows "track_loop ex PO opts t dsk =
     Inr (dsk\<lparr>tracks := (\<lambda>i. if t \<le> i \<and> i < 35
                               then Some (nibblized_track ex PO (o_volume opts) raw i)
                               else tracks dsk i)\<rparr>)"
  using assms
proof (induction ex PO opts t dsk rule: track_loop.induct)
  case (1 ex PO opts t dsk)
  show ?case
  proof (cases "t < 35")
    case True
    let ?track = "nibblized_track ex PO (o_volume opts) raw t"
    have sl: "sector_loop ex PO opts t 0 [] = Inr ?track"
      using "1.prems" by (rule sector_loop_track)
    have "track_loop ex PO opts t dsk =
        track_loop ex PO opts (t + 1) (dsk\<lparr>tracks := (tracks dsk)(t \<mapsto> bytify ?track)\<rparr>)"
      by (subst track_loop.simps) (simp add: True sl)
    also have "\<dots> = Inr (dsk\<lparr>tracks := (tracks dsk)(t \<mapsto> bytify ?track)\<rparr>
        \<lparr>tracks := (\<lambda>i. if t + 1 \<le> i \<and> i < 35
                        then Some (nibblized_track ex PO (o_volume opts) raw i)
                        else tracks (dsk\<lparr>tracks := (tracks dsk)(t \<mapsto> bytify ?track)\<rparr>) i)\<rparr>)"
      by (rule "1.IH" [OF True sl "1.prems"])
    also have "(\<lambda>i. if t + 1 \<le> i \<and> i < 35
                        then Some (nibblized_track ex PO (o_volume opts) raw i)
                        else tracks (dsk\<lparr>tracks := (tracks dsk)(t \<mapsto> bytify ?track)\<rparr>) i)
        = (\<lambda>i. if t \<le> i \<and> i < 35
                               then Some (nibblized_track ex PO (o_volume opts) raw i)
                               else tracks dsk i)"
      using True by (auto simp add: bytify_def fun_eq_iff)
    finally show ?thesis by simp
  next
    case False
    then have "(\<lambda>i. if t \<le> i \<and> i < 35
                    then Some (nibblized_track ex PO (o_volume opts) raw i)
                    else tracks dsk i) = tracks dsk"
      by (auto simp add: fun_eq_iff)
    with False show ?thesis by (subst track_loop.simps) simp
  qed
qed

lemma ProDOS_raw:
  assumes "o_rawData opts = Some raw"
  shows "ProDOS ex PO opts =
     Inr \<lparr>format = ''nib'', name = o_name opts,
          volume = (case o_volume opts of Some v \<Rightarrow> if v \<noteq> 0 then v else 254 | None \<Rightarrow> 254),
          tracks = (\<lambda>i. if i < 35 then Some (nibblized_track ex PO (o_volume opts) raw i)
                        else None),
          readOnly = (case o_readOnly opts of Some b \<Rightarrow> b | None \<Rightarrow> False),
          trackMap = None, rawTracks = None\<rparr>"
  by (simp add: ProDOS_def track_loop_raw [OF assms] cong: if_cong)

lemma logical_sector_length:
  assumes "length raw = 35 * 16 * 256" "t < 35" "PO p < 16"
  shows "length (logical_sector PO raw t p) = 256"
proof -
  have "16 * t + PO p \<le> 559" using assms by simp
  then have "(16 * t + PO p) * 256 \<le> 559 * 256" by (rule mult_le_mono1)
  with assms show ?thesis by (simp add: logical_sector_def)
qed

text \<open>
  C6: for an image given as raw data, the loader returns a disk whose tracks are exactly
  those with indices 0 to 34, track \<open>t\<close> being the concatenation over the physical sectors
  0 to 15, in order, of \<open>explodeSector16\<close> applied to the logical sector at offset
  \<open>(16 * t + PO p) * 256\<close>; for an image of 35 * 16 * 256 bytes and a table with entries
  below 16 each of these sectors has 256 bytes.
\<close>

theorem ProDOS_tracks:
  assumes "o_rawData opts = Some raw" "length raw = 35 * 16 * 256" "\<forall>p<16. PO p < 16"
  shows "\<exists>d. ProDOS explodeSector16 PO opts = Inr d \<and>
           dom (tracks d) = {0..<35} \<and>
           (\<forall>t<35. tracks d t = Some (nibblized_track explodeSector16 PO (o_volume opts) raw t)) \<and>
           (\<forall>t<35. \<forall>p<16. length (logical_sector PO raw t p) = 256)"
proof -
  have "\<forall>t<35. \<forall>p<16. length (logical_sector PO raw t p) = 256"
    using assms(2,3) by (simp add: logical_sector_length)
  then show ?thesis
    by (auto simp add: ProDOS_raw [OF assms(1)] dom_def)
qed

lemma blank_image_length: "length blank_image = 35 * 16 * 256"
  by (simp only: blank_image_def length_replicate)


lemma example_PO_range: "\<forall>p<16. example_PO p < 16"
  by (auto simp add: example_PO_def)

text \<open>C6 on a blank image of 143360 bytes, with the interleave 0, 8, 1, 9, ..., 7, 15.\<close>

theorem ProDOS_tracks_witness:
  "o_rawData example_po_options = Some blank_image \<and>
   length blank_image = 35 * 16 * 256 \<and>
   example_PO 15 < 16 \<and>
   (\<exists>d. ProDOS volume_probe example_PO example_po_options = Inr d \<and>
        dom (tracks d) = {0..<35} \<and>
        tracks d 34 = Some (nibblized_track volume_probe example_PO None blank_image 34)) \<and>
   length (logical_sector example_PO blank_image 34 15) = 256"
proof -
  have raw: "o_rawData example_po_options = Some blank_image"
    and vol: "o_volume example_po_options = None"
    by (simp_all add: example_po_options_def)
  from ProDOS_tracks [OF raw blank_image_length example_PO_range, of volume_probe]
  obtain d where d: "ProDOS volume_probe example_PO example_po_options = Inr d"
      "dom (tracks d) = {0..<35}"
      "\<forall>t<35. tracks d t = Some (nibblized_track volume_probe example_PO
          (o_volume example_po_options) blank_image t)"
      "\<forall>t<35. \<forall>p<16. length (logical_sector example_PO blank_image t p) = 256"
    by blast
  from d(3) have "tracks d 34 = Some (nibblized_track volume_probe example_PO None blank_image 34)"
    by (simp add: vol)
  moreover from d(4) have "length (logical_sector example_PO blank_image 34 15) = 256"
    by simp
  moreover have "example_PO 15 < 16" by (simp add: example_PO_def)
  ultimately show ?thesis using raw blank_image_length d(1,2) by blast
qed

lemma concat_singletons: "concat (map (\<lambda>p. [v]) [0..<n]) = replicate n v"
  by (induction n) (simp_all add: replicate_append_same)

text \<open>
  C7: when the caller gives no volume, the returned disk has volume 254, but every call of
  \<open>explodeSector16\<close> is given \<open>undefined\<close> (\<open>None\<close>), not 254: with the stand-in that shows
  its volume argument, track 0 of a blank image is sixteen times 0.
\<close>

theorem ProDOS_volume_undefined:
  "ProDOS explodeSector16 PO
     \<lparr>o_data = dat, o_name = nm, o_rawData = Some raw, o_volume = None, o_readOnly = ro\<rparr> =
   Inr \<lparr>format = ''nib'', name = nm, volume = 254,
        tracks = (\<lambda>i. if i < 35 then Some (nibblized_track explodeSector16 PO None raw i)
                      else None),
        readOnly = (case ro of Some b \<Rightarrow> b | None \<Rightarrow> False),
        trackMap = None, rawTracks = None\<rparr> \<and>
   (\<exists>d. ProDOS volume_probe example_PO example_po_options = Inr d \<and> volume d = 254 \<and>
        tracks d 0 = Some (replicate 16 0))"
proof -
  have raw: "o_rawData example_po_options = Some blank_image"
    by (simp add: example_po_options_def)
  have track0: "nibblized_track volume_probe example_PO None blank_image 0 = replicate 16 0"
    unfolding nibblized_track_def volume_probe_def by (simp only: concat_singletons option.case)
  have general: "ProDOS explodeSector16 PO
     \<lparr>o_data = dat, o_name = nm, o_rawData = Some raw, o_volume = None, o_readOnly = ro\<rparr> =
   Inr \<lparr>format = ''nib'', name = nm, volume = 254,
        tracks = (\<lambda>i. if i < 35 then Some (nibblized_track explodeSector16 PO None raw i)
                      else None),
        readOnly = (case ro of Some b \<Rightarrow> b | None \<Rightarrow> False),
        trackMap = None, rawTracks = None\<rparr>"
    by (simp add: ProDOS_raw [of _ raw] cong: if_cong)
  have "\<exists>d. ProDOS volume_probe example_PO example_po_options = Inr d \<and> volume d = 254 \<and>
        tracks d 0 = Some (replicate 16 0)"
    unfolding ProDOS_raw [OF raw] using track0 by (simp add: example_po_options_def)
  with general show ?thesis by blast
qed











end
